theory Spec2Isabelle
  imports Complex_Main "HOL-Library.AList"
begin

section \<open>Python runtime conventions\<close>

text \<open>
  Python floats are modelled as real numbers: every statement below is about the exact
  arithmetic the code is written in, not about IEEE rounding. Exceptions are values of
  \<open>py_error\<close>; a function that can raise returns \<open>py_error + 'a\<close> with \<open>Inl\<close> the
  exception. Wall-clock readings (\<open>time.time()\<close>) and random draws
  (\<open>random.uniform\<close>) are arguments supplied by the environment.
\<close>

datatype py_error = ValueError | IndexError | KeyError | ZeroDivisionError | RequestFailed

fun and_then :: "py_error + 'a \<Rightarrow> ('a \<Rightarrow> py_error + 'b) \<Rightarrow> py_error + 'b" where
  "and_then (Inl e) f = Inl e"
| "and_then (Inr x) f = f x"

definition py_index :: "'a list \<Rightarrow> int \<Rightarrow> py_error + 'a" where
  \<comment> \<open>\<open>xs[i]\<close>: a negative index counts from the end, out of range raises.\<close>
  "py_index xs i =
     (if 0 \<le> i \<and> i < int (length xs) then Inr (xs ! nat i)
      else if i < 0 \<and> - int (length xs) \<le> i then Inr (xs ! nat (int (length xs) + i))
      else Inl IndexError)"

definition py_truediv :: "real \<Rightarrow> real \<Rightarrow> py_error + real" where
  "py_truediv a b = (if b = 0 then Inl ZeroDivisionError else Inr (a / b))"

definition radians :: "real \<Rightarrow> real" where
  "radians x = x * pi / 180"

definition degrees :: "real \<Rightarrow> real" where
  "degrees x = x * 180 / pi"

definition py_sqrt :: "real \<Rightarrow> py_error + real" where
  \<comment> \<open>\<open>math.sqrt\<close> raises ValueError below zero.\<close>
  "py_sqrt x = (if x < 0 then Inl ValueError else Inr (sqrt x))"

definition py_asin :: "real \<Rightarrow> py_error + real" where
  \<comment> \<open>\<open>math.asin\<close> raises ValueError outside [-1, 1].\<close>
  "py_asin x = (if x < - 1 \<or> 1 < x then Inl ValueError else Inr (arcsin x))"

definition atan2 :: "real \<Rightarrow> real \<Rightarrow> real" where
  \<comment> \<open>\<open>math.atan2(y, x)\<close>: the angle of the point (x, y) in (-pi, pi], 0 at the origin.\<close>
  "atan2 y x =
     (if 0 < x then arctan (y / x)
      else if x < 0 then (if 0 \<le> y then arctan (y / x) + pi else arctan (y / x) - pi)
      else if 0 < y then pi / 2
      else if y < 0 then - (pi / 2)
      else 0)"

section \<open>Routing data client (osrm_client.py)\<close>

text \<open>\<open>RoutePoint\<close>; its fields carry the prefix \<open>point_\<close> because \<open>VehicleState\<close> has a
  latitude and a longitude of its own.\<close>

record route_point =
  point_latitude :: real
  point_longitude :: real
  point_name :: string
  point_weight :: real
  point_delivery_time :: int

text \<open>\<open>RouteGeometry\<close>; a turn-by-turn step is kept as the text of its JSON object.\<close>

record route_geometry =
  coordinates :: "(real \<times> real) list"
  distance :: real
  duration :: real
  steps :: "string list"
  geometry_string :: string

text \<open>
  The remote service. A request is the endpoint it is sent to, the OSRM service and the
  \<open>lon,lat;...\<close> coordinate string (kept as the list of pairs it prints). What one
  \<open>session.get\<close> gives: the call raises (timeout, connection error), or a response with
  a status and a body; the body does not parse, or it is a JSON object with its
  \<open>code\<close> and the part the caller reads (\<open>None\<close> when that part is missing, empty or
  malformed). The network is a function of the attempt number within the call and the
  request.
\<close>

datatype service = Table | Route | Trip

record request =
  req_endpoint :: string
  req_service :: service
  req_coordinates :: "(real \<times> real) list"

datatype 'p body = Bad_Json | Json string "'p option"

datatype 'p response = Connection_Failed | Http nat "'p body"

type_synonym 'p network = "nat \<Rightarrow> request \<Rightarrow> 'p response"

datatype event = Request request | Sleep real

text \<open>\<open>routes[0]\<close> of a route response, coordinates as the \<open>[lon, lat]\<close> pairs OSRM sends;
  \<open>legs\<close> and each leg's \<open>steps\<close> are optional keys.\<close>

record osrm_route =
  osrm_coordinates :: "(real \<times> real) list"
  osrm_distance :: real
  osrm_duration :: real
  osrm_legs :: "string list option list option"
  osrm_geometry_text :: string

text \<open>\<open>EnhancedOSRMClient\<close>. The route cache is keyed by \<open>f"route_{coord_string}"\<close>, kept
  here as the coordinate list the string prints; an entry is the geometry and its
  timestamp.\<close>

record osrm_client =
  primary_url :: string
  fallback_url :: string
  current_url :: string
  route_cache :: "(real \<times> real) list \<rightharpoonup> (route_geometry \<times> real)"
  cache_ttl :: real
  timeout :: real
  max_retries :: nat
  retry_delay :: real

definition EnhancedOSRMClient_init :: osrm_client where
  "EnhancedOSRMClient_init =
     \<lparr> primary_url = ''https://router.project-osrm.org'',
       fallback_url = ''http://localhost:5000'',
       current_url = ''https://router.project-osrm.org'',
       route_cache = Map.empty, cache_ttl = 3600, timeout = 30, max_retries = 3,
       retry_delay = 1 \<rparr>"

definition haversine_distance :: "real \<times> real \<Rightarrow> real \<times> real \<Rightarrow> py_error + real" where
  "haversine_distance point1 point2 =
     (let lat1 = radians (fst point1); lon1 = radians (snd point1);
          lat2 = radians (fst point2); lon2 = radians (snd point2);
          dlat = lat2 - lat1;
          dlon = lon2 - lon1;
          a = (sin (dlat / 2))\<^sup>2 + cos lat1 * cos lat2 * (sin (dlon / 2))\<^sup>2
      in and_then (py_sqrt a) (\<lambda>root.
         and_then (py_asin root) (\<lambda>half.
           let c = 2 * half; r = 6371 in Inr (c * r))))"

text \<open>The loop of \<open>_create_fallback_geometry\<close>:
  \<open>for i in range(len(coordinates) - 1): total_distance += haversine(c[i], c[i + 1])\<close>.\<close>

fun fallback_total_distance ::
  "(real \<times> real) list \<Rightarrow> nat list \<Rightarrow> real \<Rightarrow> py_error + real" where
  "fallback_total_distance cs [] total_distance = Inr total_distance"
| "fallback_total_distance cs (i # rest) total_distance =
     and_then (py_index cs (int i)) (\<lambda>a.
     and_then (py_index cs (int i + 1)) (\<lambda>b.
     and_then (haversine_distance a b) (\<lambda>dist.
       fallback_total_distance cs rest (total_distance + dist))))"

definition create_fallback_geometry :: "route_point list \<Rightarrow> py_error + route_geometry" where
  "create_fallback_geometry points =
     (let cs = map (\<lambda>p. (point_latitude p, point_longitude p)) points
      in and_then (fallback_total_distance cs [0 ..< length cs - 1] 0) (\<lambda>total_distance.
           let duration = (total_distance / 50) * 3600
           in Inr \<lparr> coordinates = cs, distance = total_distance * 1000, duration = duration,
                    steps = [], geometry_string = [] \<rparr>))"

definition route_steps :: "osrm_route \<Rightarrow> string list" where
  \<comment> \<open>\<open>if "legs" in route: for leg in legs: if "steps" in leg: steps.extend(leg["steps"])\<close>\<close>
  "route_steps route =
     (case osrm_legs route of
        None \<Rightarrow> []
      | Some legs \<Rightarrow> concat (map (\<lambda>leg. case leg of None \<Rightarrow> [] | Some st \<Rightarrow> st) legs))"

definition fetch_route_geometry ::
  "osrm_client \<Rightarrow> osrm_route network \<Rightarrow> (real \<times> real) list \<Rightarrow> (py_error + route_geometry) \<times> event list" where
  "fetch_route_geometry self net coord_string =
     (let url = \<lparr> req_endpoint = current_url self, req_service = Route,
                   req_coordinates = coord_string \<rparr>
      in (case net 0 url of
            Connection_Failed \<Rightarrow> Inl RequestFailed
          | Http st b \<Rightarrow>
              (if st = 200 then
                 (case b of
                    Bad_Json \<Rightarrow> Inl ValueError
                  | Json code routes \<Rightarrow>
                      (case routes of
                         Some route \<Rightarrow>
                           if code = ''Ok'' then
                             Inr \<lparr> coordinates = map (\<lambda>(lon, lat). (lat, lon)) (osrm_coordinates route),
                                   distance = osrm_distance route,
                                   duration = osrm_duration route,
                                   steps = route_steps route,
                                   geometry_string = osrm_geometry_text route \<rparr>
                           else Inl RequestFailed
                       | None \<Rightarrow> Inl RequestFailed))
               else Inl RequestFailed),
          [Request url]))"

definition get_route_geometry_async ::
  "osrm_client \<Rightarrow> osrm_route network \<Rightarrow> real \<Rightarrow> route_point \<Rightarrow> route_point \<Rightarrow> route_point list option
     \<Rightarrow> (py_error + route_geometry) \<times> osrm_client \<times> event list" where
  \<comment> \<open>\<open>now\<close> is what \<open>time.time()\<close> reads during the call.\<close>
  "get_route_geometry_async self net now start end' via =
     (let all_points = [start] @ (case via of None \<Rightarrow> [] | Some ws \<Rightarrow> ws) @ [end'];
          coord_string = map (\<lambda>p. (point_longitude p, point_latitude p)) all_points;
          cached = (case route_cache self coord_string of
                      None \<Rightarrow> None
                    | Some (g, timestamp) \<Rightarrow> if now - timestamp < cache_ttl self then Some g else None)
      in case cached of
           Some g \<Rightarrow> (Inr g, self, [])
         | None \<Rightarrow>
             (case fetch_route_geometry self net coord_string of
                (Inr g, trace) \<Rightarrow>
                  (Inr g, self\<lparr>route_cache := (route_cache self)(coord_string \<mapsto> (g, now))\<rparr>, trace)
              | (Inl e, trace) \<Rightarrow> (create_fallback_geometry all_points, self, trace)))"

text \<open>One pass of the loop of \<open>_fetch_distance_matrix\<close>: the response gives the matrix,
  or the body of the \<open>async with\<close> falls through without returning, or an exception is
  raised inside the \<open>try\<close>.\<close>

datatype 'a attempt = Returned 'a | Fell_Through | Raised

definition matrix_attempt :: "real list list response \<Rightarrow> real list list attempt" where
  "matrix_attempt r =
     (case r of
        Connection_Failed \<Rightarrow> Raised
      | Http st b \<Rightarrow>
          (if st = 200 then
             (case b of
                Bad_Json \<Rightarrow> Raised
              | Json code distances \<Rightarrow>
                  (if code = ''Ok'' then
                     (case distances of
                        None \<Rightarrow> Raised
                      | Some m \<Rightarrow> Returned (map (map (\<lambda>d. d / 1000)) m))
                   else Fell_Through))
           else Fell_Through))"

fun fetch_distance_matrix_loop ::
  "real list list network \<Rightarrow> (real \<times> real) list \<Rightarrow> nat list \<Rightarrow> osrm_client \<Rightarrow> event list
     \<Rightarrow> (py_error + real list list) \<times> osrm_client \<times> event list" where
  "fetch_distance_matrix_loop net coord_string [] self trace = (Inl RequestFailed, self, trace)"
| "fetch_distance_matrix_loop net coord_string (attempt # rest) self trace =
     (let url = \<lparr> req_endpoint = current_url self, req_service = Table,
                   req_coordinates = coord_string \<rparr>
      in case matrix_attempt (net attempt url) of
           Returned m \<Rightarrow> (Inr m, self, trace @ [Request url])
         | Fell_Through \<Rightarrow>
             if current_url self = primary_url self \<and> attempt = 0
             then fetch_distance_matrix_loop net coord_string rest
                    (self\<lparr>current_url := fallback_url self\<rparr>) (trace @ [Request url])
             else fetch_distance_matrix_loop net coord_string rest self (trace @ [Request url])
         | Raised \<Rightarrow>
             if attempt < max_retries self - 1
             then fetch_distance_matrix_loop net coord_string rest self
                    (trace @ [Request url, Sleep (retry_delay self * (real attempt + 1))])
             else fetch_distance_matrix_loop net coord_string rest self (trace @ [Request url]))"

definition fetch_distance_matrix ::
  "osrm_client \<Rightarrow> real list list network \<Rightarrow> (real \<times> real) list
     \<Rightarrow> (py_error + real list list) \<times> osrm_client \<times> event list" where
  "fetch_distance_matrix self net coord_string =
     fetch_distance_matrix_loop net coord_string [0 ..< max_retries self] self []"

definition get_optimized_route_order ::
  "osrm_client \<Rightarrow> int list network \<Rightarrow> route_point \<Rightarrow> route_point list \<Rightarrow> int list \<times> event list" where
  \<comment> \<open>The part of the body read is \<open>[wp["waypoint_index"] for wp in trips[0]["legs"]]\<close>.\<close>
  "get_optimized_route_order self net depot delivery_points =
     (let all_points = [depot] @ delivery_points;
          coord_string = map (\<lambda>p. (point_longitude p, point_latitude p)) all_points;
          url = \<lparr> req_endpoint = current_url self, req_service = Trip,
                  req_coordinates = coord_string \<rparr>;
          original_order = map int [0 ..< length delivery_points]
      in (case net 0 url of
            Connection_Failed \<Rightarrow> original_order
          | Http st b \<Rightarrow>
              (if st = 200 then
                 (case b of
                    Bad_Json \<Rightarrow> original_order
                  | Json code trips \<Rightarrow>
                      (case trips of
                         Some waypoint_indices \<Rightarrow>
                           if code = ''Ok''
                           then map (\<lambda>idx. idx - 1) (filter (\<lambda>idx. idx > 0) waypoint_indices)
                           else original_order
                       | None \<Rightarrow> original_order))
               else original_order),
          [Request url]))"

section \<open>Simulation state (simulator.py)\<close>

datatype vehicle_status = IDLE | MOVING | DELIVERING | RETURNING | COMPLETED

record vehicle_state =
  vehicle_id :: string
  latitude :: real
  longitude :: real
  speed :: real
  heading :: real
  status :: vehicle_status
  current_cargo :: real
  fuel_used :: real
  progress :: real
  current_order_index :: int
  last_updated :: real

text \<open>An order of a route dictionary: \<open>order['location']['lat' | 'lon' | 'name']\<close> and
  \<open>order['weight']\<close>.\<close>

record order =
  location_lat :: real
  location_lon :: real
  location_name :: string
  order_weight :: real

text \<open>A route dictionary as the optimizer hands it over; \<open>total_distance\<close> and
  \<open>estimated_time\<close> are read with \<open>route.get(..., 0)\<close>.\<close>

record route_dict =
  route_vehicle_id :: string
  route_orders :: "order list"
  route_total_distance :: "real option"
  route_estimated_time :: "real option"

record simulation_route =
  sim_vehicle_id :: string
  waypoints :: "route_point list"
  geometry :: "route_geometry option"
  total_distance :: real
  estimated_time :: real
  orders :: "order list"

text \<open>\<open>VehicleSimulator\<close>: the two dictionaries keep insertion order (association lists),
  \<open>websocket_callbacks\<close> is the number of registered callbacks.\<close>

record vehicle_simulator =
  active_simulations :: "(string \<times> vehicle_state) list"
  simulation_routes :: "(string \<times> simulation_route) list"
  websocket_callbacks :: nat
  update_interval :: real
  simulation_speed_multiplier :: real
  average_speed :: real
  delivery_time :: real
  max_speed :: real
  min_speed :: real
  acceleration_rate :: real
  deceleration_rate :: real
  is_running :: bool

definition VehicleSimulator_init :: vehicle_simulator where
  "VehicleSimulator_init =
     \<lparr> active_simulations = [], simulation_routes = [], websocket_callbacks = 0,
       update_interval = 2, simulation_speed_multiplier = 100, average_speed = 45,
       delivery_time = 3, max_speed = 80, min_speed = 20, acceleration_rate = 10,
       deceleration_rate = 15, is_running = False \<rparr>"

section \<open>Geodesic math (simulator.py)\<close>

function normalize_up :: "real \<Rightarrow> real" where
  \<comment> \<open>\<open>while angle < 0: angle += 360\<close>\<close>
  "normalize_up angle = (if angle < 0 then normalize_up (angle + 360) else angle)"
  by pat_completeness auto
termination
proof (relation "measure (\<lambda>a. nat \<lceil>- a / 360\<rceil>)")
  show "wf (measure (\<lambda>a. nat \<lceil>- a / 360\<rceil>))" by simp
next
  fix angle :: real
  assume neg: "angle < 0"
  have step: "\<lceil>- (angle + 360) / 360\<rceil> = \<lceil>- angle / 360\<rceil> - 1"
  proof -
    have "- (angle + 360) / 360 = - angle / 360 - 1" by (simp add: field_simps)
    then show ?thesis by (simp only: ceiling_diff_one)
  qed
  have pos: "0 < \<lceil>- angle / 360\<rceil>" using neg by (simp add: field_simps)
  show "(angle + 360, angle) \<in> measure (\<lambda>a. nat \<lceil>- a / 360\<rceil>)"
    unfolding in_measure step using pos by linarith
qed

function normalize_down :: "real \<Rightarrow> real" where
  \<comment> \<open>\<open>while angle >= 360: angle -= 360\<close>\<close>
  "normalize_down angle = (if 360 \<le> angle then normalize_down (angle - 360) else angle)"
  by pat_completeness auto
termination
proof (relation "measure (\<lambda>a. nat \<lfloor>a / 360\<rfloor>)")
  show "wf (measure (\<lambda>a. nat \<lfloor>a / 360\<rfloor>))" by simp
next
  fix angle :: real
  assume big: "360 \<le> angle"
  have step: "\<lfloor>(angle - 360) / 360\<rfloor> = \<lfloor>angle / 360\<rfloor> - 1"
  proof -
    have "(angle - 360) / 360 = angle / 360 - 1" by (simp add: field_simps)
    then show ?thesis by (simp only: floor_diff_one)
  qed
  have pos: "1 \<le> \<lfloor>angle / 360\<rfloor>" using big by (simp add: le_floor_iff)
  show "(angle - 360, angle) \<in> measure (\<lambda>a. nat \<lfloor>a / 360\<rfloor>)"
    unfolding in_measure step using pos by linarith
qed

definition normalize_angle :: "real \<Rightarrow> real" where
  "normalize_angle angle = normalize_down (normalize_up angle)"

definition calculate_distance :: "real \<Rightarrow> real \<Rightarrow> real \<Rightarrow> real \<Rightarrow> py_error + real" where
  "calculate_distance lat1 lon1 lat2 lon2 =
     (let R = 6371;
          lat1_rad = radians lat1;
          lon1_rad = radians lon1;
          lat2_rad = radians lat2;
          lon2_rad = radians lon2;
          dlat = lat2_rad - lat1_rad;
          dlon = lon2_rad - lon1_rad;
          a = (sin (dlat / 2))\<^sup>2 + cos lat1_rad * cos lat2_rad * (sin (dlon / 2))\<^sup>2
      in and_then (py_sqrt a) (\<lambda>root.
         and_then (py_asin root) (\<lambda>half.
           Inr (R * (2 * half)))))"

definition calculate_bearing :: "real \<Rightarrow> real \<Rightarrow> real \<Rightarrow> real \<Rightarrow> real" where
  "calculate_bearing lat1 lon1 lat2 lon2 =
     (let lat1_rad = radians lat1;
          lat2_rad = radians lat2;
          dlon_rad = radians (lon2 - lon1);
          y = sin dlon_rad * cos lat2_rad;
          x = cos lat1_rad * sin lat2_rad - sin lat1_rad * cos lat2_rad * cos dlon_rad;
          bearing_rad = atan2 y x;
          bearing_deg = degrees bearing_rad
      in normalize_angle bearing_deg)"

definition move_along_bearing :: "real \<Rightarrow> real \<Rightarrow> real \<Rightarrow> real \<Rightarrow> py_error + (real \<times> real)" where
  "move_along_bearing lat lon bearing distance_km =
     (let R = 6371;
          lat_rad = radians lat;
          lon_rad = radians lon;
          bearing_rad = radians bearing
      in and_then
           (py_asin (sin lat_rad * cos (distance_km / R) +
                     cos lat_rad * sin (distance_km / R) * cos bearing_rad))
           (\<lambda>lat2_rad.
              let lon2_rad = lon_rad + atan2
                    (sin bearing_rad * sin (distance_km / R) * cos lat_rad)
                    (cos (distance_km / R) - sin lat_rad * sin lat2_rad)
              in Inr (degrees lat2_rad, degrees lon2_rad)))"

section \<open>Per-vehicle advance (simulator.py)\<close>

definition calculate_target_speed :: "vehicle_simulator \<Rightarrow> vehicle_state \<Rightarrow> real \<Rightarrow> real" where
  \<comment> \<open>\<open>traffic_factor\<close> is the value \<open>random.uniform(0.8, 1.2)\<close> draws.\<close>
  "calculate_target_speed self vehicle_state traffic_factor =
     (if status vehicle_state = DELIVERING then 0
      else if status vehicle_state = IDLE then 0
      else
        let weight_factor = 1 - (current_cargo vehicle_state / 2000 * 0.2);
            base_speed = average_speed self * weight_factor * traffic_factor
        in max (min_speed self) (min (max_speed self) base_speed))"

definition move_vehicle_towards_target ::
  "vehicle_simulator \<Rightarrow> vehicle_state \<Rightarrow> route_point \<Rightarrow> real \<Rightarrow> real \<Rightarrow> py_error + vehicle_state" where
  "move_vehicle_towards_target self vs target traffic_factor now =
     (let bearing = calculate_bearing (latitude vs) (longitude vs)
                      (point_latitude target) (point_longitude target);
          heading_diff = normalize_angle (bearing - heading vs);
          max_turn_rate = 30;
          vs1 = (if \<bar>heading_diff\<bar> > max_turn_rate
                 then (let turn_direction = (if heading_diff > 0 then 1 else - 1)
                       in vs\<lparr>heading := heading vs + turn_direction * max_turn_rate\<rparr>)
                 else vs\<lparr>heading := bearing\<rparr>);
          vs2 = vs1\<lparr>heading := normalize_angle (heading vs1)\<rparr>;
          target_speed = calculate_target_speed self vs2 traffic_factor;
          speed_diff = target_speed - speed vs2;
          max_acceleration = (if speed_diff > 0 then acceleration_rate self
                              else deceleration_rate self) * update_interval self;
          vs3 = (if \<bar>speed_diff\<bar> > max_acceleration
                 then (let acceleration = (if speed_diff > 0 then max_acceleration
                                           else - max_acceleration)
                       in vs2\<lparr>speed := speed vs2 + acceleration\<rparr>)
                 else vs2\<lparr>speed := target_speed\<rparr>);
          vs4 = vs3\<lparr>speed := max 0 (min (max_speed self) (speed vs3))\<rparr>;
          distance_km = (speed vs4 * simulation_speed_multiplier self * update_interval self) / 3600
      in and_then (move_along_bearing (latitude vs4) (longitude vs4) (heading vs4) distance_km)
           (\<lambda>(new_lat, new_lon).
              let vs5 = vs4\<lparr>latitude := new_lat, longitude := new_lon, last_updated := now\<rparr>;
                  fuel_rate = 0.08 + (current_cargo vs5 / 1000 * 0.02)
              in Inr (vs5\<lparr>fuel_used := fuel_used vs5 + distance_km * fuel_rate\<rparr>)))"

text \<open>
  \<open>_handle_waypoint_arrival\<close> suspends once, in \<open>asyncio.sleep\<close>, between two groups of
  assignments. The model returns what is observable at that suspension point (the
  duration slept and the vehicle state during the sleep) beside the final state.
\<close>

type_synonym pause = "real \<times> vehicle_state"

definition handle_waypoint_arrival ::
  "vehicle_simulator \<Rightarrow> vehicle_state \<Rightarrow> simulation_route \<Rightarrow> int \<Rightarrow> py_error + (pause option \<times> vehicle_state)" where
  "handle_waypoint_arrival self vs sim_route waypoint_index =
     (if waypoint_index = 0 then
        Inr (None, vs\<lparr>status := MOVING, current_order_index := 0\<rparr>)
      else if waypoint_index = int (length (waypoints sim_route)) - 1 then
        Inr (None, vs\<lparr>status := COMPLETED, progress := 100, current_cargo := 0, speed := 0\<rparr>)
      else
        let vs1 = vs\<lparr>status := DELIVERING\<rparr>;
            order_index = waypoint_index - 1
        in and_then
             (if order_index < int (length (orders sim_route))
              then and_then (py_index (orders sim_route) order_index)
                     (\<lambda>order. Inr (vs1\<lparr>current_cargo := current_cargo vs1 - order_weight order\<rparr>))
              else Inr vs1)
             (\<lambda>vs2.
                and_then (py_truediv (delivery_time self * 60) (simulation_speed_multiplier self))
                  (\<lambda>seconds.
                     let vs3 = vs2\<lparr>status := MOVING, current_order_index := waypoint_index\<rparr>
                     in and_then
                          (py_truediv (of_int waypoint_index)
                             (of_int (int (length (waypoints sim_route)) - 1)))
                          (\<lambda>ratio. Inr (Some (seconds, vs2), vs3\<lparr>progress := ratio * 100\<rparr>)))))"

text \<open>The body of \<open>_update_vehicle_position\<close> on the two objects it looks up.\<close>

definition update_vehicle ::
  "vehicle_simulator \<Rightarrow> vehicle_state \<Rightarrow> simulation_route \<Rightarrow> real \<Rightarrow> real \<Rightarrow> py_error + (pause option \<times> vehicle_state)" where
  "update_vehicle self vs sim_route traffic_factor now =
     (if status vs = COMPLETED then Inr (None, vs)
      else
        let target_waypoint_index =
              min (current_order_index vs + 1) (int (length (waypoints sim_route)) - 1)
        in if target_waypoint_index \<ge> int (length (waypoints sim_route))
           then Inr (None, vs\<lparr>status := COMPLETED, progress := 100\<rparr>)
           else
             and_then (py_index (waypoints sim_route) target_waypoint_index) (\<lambda>target_waypoint.
             and_then (move_vehicle_towards_target self vs target_waypoint traffic_factor now) (\<lambda>vs'.
             and_then (calculate_distance (latitude vs') (longitude vs')
                         (point_latitude target_waypoint) (point_longitude target_waypoint))
               (\<lambda>distance_to_target.
                  if distance_to_target < 0.1
                  then handle_waypoint_arrival self vs' sim_route target_waypoint_index
                  else Inr (None, vs')))))"

section \<open>The engine's operations (simulator.py)\<close>

definition add_websocket_callback :: "vehicle_simulator \<Rightarrow> vehicle_simulator" where
  "add_websocket_callback self = self\<lparr>websocket_callbacks := websocket_callbacks self + 1\<rparr>"

definition set_simulation_speed :: "vehicle_simulator \<Rightarrow> real \<Rightarrow> vehicle_simulator" where
  "set_simulation_speed self multiplier =
     self\<lparr>simulation_speed_multiplier := max 1 (min 1000 multiplier)\<rparr>"

text \<open>Events of the engine, each with the reading of the clock at which it happens:
  \<open>_update_vehicle_position\<close> is entered for a vehicle, \<open>asyncio.sleep\<close> of the delivery
  pause starts (with the vehicle state visible while it lasts), a snapshot is handed to
  the callbacks. The clock advances in \<open>asyncio.sleep\<close> only: computation takes no time.\<close>

datatype sim_event =
  Advanced real string
| Paused real string real vehicle_state
| Broadcast real "vehicle_state list" bool

definition broadcast_all_vehicle_states :: "vehicle_simulator \<Rightarrow> real \<Rightarrow> sim_event list" where
  "broadcast_all_vehicle_states self now =
     (if websocket_callbacks self = 0 then []
      else [Broadcast now (map snd (active_simulations self)) (is_running self)])"

definition stop_simulation :: "vehicle_simulator \<Rightarrow> real \<Rightarrow> vehicle_simulator \<times> sim_event list" where
  "stop_simulation self now =
     (let self1 = self\<lparr>is_running := False\<rparr>;
          self2 = self1\<lparr>active_simulations :=
                    map (\<lambda>(vid, vs). (vid, vs\<lparr>status := COMPLETED, progress := 100\<rparr>))
                      (active_simulations self1)\<rparr>
      in (self2, broadcast_all_vehicle_states self2 now))"

definition initial_waypoints :: "route_point \<Rightarrow> order list \<Rightarrow> route_point list" where
  \<comment> \<open>depot, one waypoint per order, depot\<close>
  "initial_waypoints depot os =
     [depot] @
     map (\<lambda>order. \<lparr> point_latitude = location_lat order, point_longitude = location_lon order,
                    point_name = location_name order, point_weight = order_weight order,
                    point_delivery_time = 5 \<rparr>) os @
     [depot]"

definition initial_vehicle_state :: "route_dict \<Rightarrow> route_point \<Rightarrow> real \<Rightarrow> vehicle_state" where
  "initial_vehicle_state route depot now =
     (let initial_cargo = sum_list (map order_weight (route_orders route))
      in \<lparr> vehicle_id = route_vehicle_id route,
           latitude = point_latitude depot, longitude = point_longitude depot,
           speed = 0, heading = 0, status = IDLE, current_cargo = initial_cargo,
           fuel_used = 0, progress = 0, current_order_index = 0, last_updated = now \<rparr>)"

definition initialize_vehicle_route ::
  "vehicle_simulator \<Rightarrow> osrm_client \<Rightarrow> osrm_route network \<Rightarrow> real \<Rightarrow> route_dict \<Rightarrow> route_point
     \<Rightarrow> vehicle_simulator \<times> osrm_client" where
  "initialize_vehicle_route self client net now route depot =
     (let vehicle_id = route_vehicle_id route;
          ws = initial_waypoints depot (route_orders route);
          (fetched, client', trace) =
             get_route_geometry_async client net now (hd ws) (last ws) (Some (butlast (tl ws)));
          geometry = (case fetched of Inr g \<Rightarrow> Some g | Inl e \<Rightarrow> None);
          sim_route = \<lparr> sim_vehicle_id = vehicle_id, waypoints = ws, geometry = geometry,
                        total_distance = (case route_total_distance route of None \<Rightarrow> 0 | Some d \<Rightarrow> d),
                        estimated_time = (case route_estimated_time route of None \<Rightarrow> 0 | Some t \<Rightarrow> t),
                        orders = route_orders route \<rparr>;
          self1 = self\<lparr>simulation_routes := AList.update vehicle_id sim_route (simulation_routes self)\<rparr>
      in (self1\<lparr>active_simulations :=
                  AList.update vehicle_id (initial_vehicle_state route depot now) (active_simulations self1)\<rparr>,
          client'))"

fun initialize_routes ::
  "vehicle_simulator \<Rightarrow> osrm_client \<Rightarrow> osrm_route network \<Rightarrow> real \<Rightarrow> route_dict list \<Rightarrow> route_point
     \<Rightarrow> vehicle_simulator \<times> osrm_client" where
  "initialize_routes self client net now [] depot = (self, client)"
| "initialize_routes self client net now (route # routes) depot =
     (case initialize_vehicle_route self client net now route depot of
        (self', client') \<Rightarrow> initialize_routes self' client' net now routes depot)"

definition start_simulation ::
  "vehicle_simulator \<Rightarrow> osrm_client \<Rightarrow> osrm_route network \<Rightarrow> real \<Rightarrow> route_dict list \<Rightarrow> route_point
     \<Rightarrow> bool \<times> vehicle_simulator \<times> osrm_client" where
  \<comment> \<open>The simulator returned is the one the tick loop is launched on.\<close>
  "start_simulation self client net now routes depot =
     (case initialize_routes (fst (stop_simulation self now)) client net now routes depot of
        (self', client') \<Rightarrow> (True, self'\<lparr>is_running := True\<rparr>, client'))"

definition update_vehicle_position ::
  "vehicle_simulator \<Rightarrow> string \<Rightarrow> real \<Rightarrow> real \<Rightarrow> py_error + (pause option \<times> vehicle_simulator)" where
  "update_vehicle_position self vid traffic_factor now =
     (case map_of (active_simulations self) vid of
        None \<Rightarrow> Inl KeyError
      | Some vs \<Rightarrow>
          (case map_of (simulation_routes self) vid of
             None \<Rightarrow> Inl KeyError
           | Some sim_route \<Rightarrow>
               and_then (update_vehicle self vs sim_route traffic_factor now) (\<lambda>(p, vs').
                 Inr (p, self\<lparr>active_simulations := AList.update vid vs' (active_simulations self)\<rparr>))))"

text \<open>The \<open>for\<close> loop of one tick over the vehicles, in dictionary order. A delivery pause
  is slept inside the call for its vehicle, so the clock handed to the next vehicle is
  the clock after the pause (\<open>asyncio.sleep\<close> of a non-positive time returns at once).\<close>

fun update_all ::
  "vehicle_simulator \<Rightarrow> string list \<Rightarrow> (string \<Rightarrow> real) \<Rightarrow> real \<Rightarrow> nat \<Rightarrow> sim_event list
     \<Rightarrow> py_error + (vehicle_simulator \<times> real \<times> nat \<times> sim_event list)" where
  "update_all self [] traffic clock active_vehicles ev = Inr (self, clock, active_vehicles, ev)"
| "update_all self (vid # rest) traffic clock active_vehicles ev =
     (case map_of (active_simulations self) vid of
        None \<Rightarrow> Inl KeyError
      | Some vs \<Rightarrow>
          if status vs \<noteq> COMPLETED then
            and_then (update_vehicle_position self vid (traffic vid) clock) (\<lambda>(p, self').
              case p of
                None \<Rightarrow>
                  update_all self' rest traffic clock (active_vehicles + 1)
                    (ev @ [Advanced clock vid])
              | Some (seconds, during) \<Rightarrow>
                  update_all self' rest traffic (clock + max 0 seconds) (active_vehicles + 1)
                    (ev @ [Advanced clock vid, Paused clock vid seconds during]))
          else update_all self rest traffic clock active_vehicles ev)"

text \<open>One pass of the \<open>while\<close> body of \<open>_simulation_loop\<close>, started at \<open>clock\<close>: the
  simulator and the clock after it, whether the loop goes on, and the events.\<close>

definition simulation_tick ::
  "vehicle_simulator \<Rightarrow> (string \<Rightarrow> real) \<Rightarrow> real
     \<Rightarrow> py_error + (vehicle_simulator \<times> real \<times> bool \<times> sim_event list)" where
  "simulation_tick self traffic clock =
     (let start_time = clock
      in and_then (update_all self (map fst (active_simulations self)) traffic clock 0 [])
           (\<lambda>(self', clock', active_vehicles, ev).
              let ev' = ev @ broadcast_all_vehicle_states self' clock'
              in if active_vehicles = 0 then Inr (self', clock', False, ev')
                 else
                   let elapsed = clock' - start_time;
                       sleep_time = max 0 (update_interval self' - elapsed)
                   in Inr (self', clock' + sleep_time, True, ev')))"

text \<open>\<open>_simulation_loop\<close>, run for at most as many ticks as traffic draws are supplied. An
  exception inside a tick is caught and logged by the loop, which then ends.\<close>

fun simulation_loop ::
  "vehicle_simulator \<Rightarrow> (string \<Rightarrow> real) list \<Rightarrow> real \<Rightarrow> sim_event list
     \<Rightarrow> vehicle_simulator \<times> real \<times> sim_event list" where
  "simulation_loop self [] clock ev = (self, clock, ev)"
| "simulation_loop self (traffic # rest) clock ev =
     (if is_running self \<and> active_simulations self \<noteq> [] then
        (case simulation_tick self traffic clock of
           Inl e \<Rightarrow> (self\<lparr>is_running := False\<rparr>, clock, ev)
         | Inr (self', clock', continue, ev') \<Rightarrow>
             if continue then simulation_loop self' rest clock' (ev @ ev')
             else (self'\<lparr>is_running := False\<rparr>, clock', ev @ ev'))
      else (self\<lparr>is_running := False\<rparr>, clock, ev))"

text \<open>What the tick loop does to one vehicle, tick after tick, from the state
  \<open>_initialize_vehicle_route\<close> gives it: one \<open>update_vehicle\<close> per tick, each with its
  traffic draw and clock reading; the pauses taken are collected in order.\<close>

fun advance_vehicle ::
  "vehicle_simulator \<Rightarrow> simulation_route \<Rightarrow> (real \<times> real) list \<Rightarrow> pause list \<Rightarrow> vehicle_state
     \<Rightarrow> py_error + (pause list \<times> vehicle_state)" where
  "advance_vehicle self sim_route [] pauses vs = Inr (pauses, vs)"
| "advance_vehicle self sim_route ((traffic_factor, now) # ticks) pauses vs =
     and_then (update_vehicle self vs sim_route traffic_factor now) (\<lambda>(p, vs').
       advance_vehicle self sim_route ticks
         (pauses @ (case p of None \<Rightarrow> [] | Some d \<Rightarrow> [d])) vs')"

text \<open>The simulators the operations can produce from a fresh one.\<close>

inductive reachable :: "vehicle_simulator \<Rightarrow> bool" where
  fresh: "reachable VehicleSimulator_init"
| callback: "reachable self \<Longrightarrow> reachable (add_websocket_callback self)"
| speed: "reachable self \<Longrightarrow> reachable (set_simulation_speed self multiplier)"
| stop: "reachable self \<Longrightarrow> reachable (fst (stop_simulation self now))"
| start: "reachable self \<Longrightarrow>
          reachable (fst (snd (start_simulation self client net now routes depot)))"
| advance: "reachable self \<Longrightarrow> update_vehicle_position self vid traffic_factor now = Inr (p, self')
          \<Longrightarrow> reachable self'"
| loop: "reachable self \<Longrightarrow> reachable (fst (simulation_loop self traffic clock ev))"

text \<open>Two simulators with the same configuration: the operations below change the
  dictionaries and \<open>is_running\<close> only.\<close>

definition same_parameters :: "vehicle_simulator \<Rightarrow> vehicle_simulator \<Rightarrow> bool" where
  "same_parameters self self' \<longleftrightarrow>
     websocket_callbacks self' = websocket_callbacks self \<and>
     update_interval self' = update_interval self \<and>
     simulation_speed_multiplier self' = simulation_speed_multiplier self \<and>
     average_speed self' = average_speed self \<and>
     delivery_time self' = delivery_time self \<and>
     max_speed self' = max_speed self \<and>
     min_speed self' = min_speed self \<and>
     acceleration_rate self' = acceleration_rate self \<and>
     deceleration_rate self' = deceleration_rate self"

section \<open>Verification\<close>

lemma and_then_Inr_iff:
  "and_then m f = Inr y \<longleftrightarrow> (\<exists>x. m = Inr x \<and> f x = Inr y)"
  by (cases m) auto

subsection \<open>The configuration is stable\<close>

lemma same_parameters_refl: "same_parameters self self"
  by (simp add: same_parameters_def)

lemma same_parameters_trans: "same_parameters a b \<Longrightarrow> same_parameters b c \<Longrightarrow> same_parameters a c"
  by (simp add: same_parameters_def)

lemma same_parameters_active: "same_parameters self (self\<lparr>active_simulations := a\<rparr>)"
  by (simp add: same_parameters_def)

lemma same_parameters_running: "same_parameters self (self\<lparr>is_running := b\<rparr>)"
  by (simp add: same_parameters_def)

lemma same_parameters_multiplier:
  "same_parameters self self' \<Longrightarrow> simulation_speed_multiplier self' = simulation_speed_multiplier self"
  by (simp add: same_parameters_def)

lemma update_vehicle_position_parameters:
  "update_vehicle_position self vid tf now = Inr (p, self') \<Longrightarrow> same_parameters self self'"
  unfolding update_vehicle_position_def
  by (auto simp: and_then_Inr_iff same_parameters_active split: option.splits)

lemma update_all_parameters:
  "update_all self vids traffic clock n ev = Inr (self', clock', n', ev') \<Longrightarrow> same_parameters self self'"
proof (induction vids arbitrary: self clock n ev)
  case Nil
  then show ?case by (simp add: same_parameters_refl)
next
  case (Cons vid rest)
  show ?case
  proof (cases "map_of (active_simulations self) vid")
    case None
    with Cons.prems show ?thesis by simp
  next
    case (Some vs)
    show ?thesis
    proof (cases "status vs = COMPLETED")
      case True
      with Cons.prems Some show ?thesis by (auto dest: Cons.IH)
    next
      case False
      with Cons.prems Some obtain p self1 where
        step: "update_vehicle_position self vid (traffic vid) clock = Inr (p, self1)" and
        rest: "(case p of None \<Rightarrow> update_all self1 rest traffic clock (n + 1) (ev @ [Advanced clock vid])
               | Some (seconds, during) \<Rightarrow> update_all self1 rest traffic (clock + max 0 seconds) (n + 1)
                    (ev @ [Advanced clock vid, Paused clock vid seconds during]))
               = Inr (self', clock', n', ev')"
        by (auto simp: and_then_Inr_iff)
      from rest have "same_parameters self1 self'"
        by (cases p) (auto dest: Cons.IH)
      with update_vehicle_position_parameters [OF step] show ?thesis
        by (rule same_parameters_trans)
    qed
  qed
qed

lemma simulation_tick_parameters:
  "simulation_tick self traffic clock = Inr (self', clock', c, ev) \<Longrightarrow> same_parameters self self'"
  unfolding simulation_tick_def
  by (auto simp: and_then_Inr_iff Let_def split: if_splits dest: update_all_parameters)

lemma simulation_loop_parameters:
  "simulation_loop self traffic clock ev = (self', clock', ev') \<Longrightarrow> same_parameters self self'"
proof (induction traffic arbitrary: self clock ev)
  case Nil
  then show ?case by (simp add: same_parameters_refl)
next
  case (Cons t rest)
  show ?case
  proof (cases "is_running self \<and> active_simulations self \<noteq> []")
    case False
    with Cons.prems show ?thesis by (auto simp: same_parameters_running)
  next
    case True
    show ?thesis
    proof (cases "simulation_tick self t clock")
      case (Inl e)
      with Cons.prems True show ?thesis by (auto simp: same_parameters_running)
    next
      case (Inr r)
      obtain self1 clock1 c ev1 where r: "r = (self1, clock1, c, ev1)" by (cases r) auto
      have f1: "same_parameters self self1" using Inr r by (auto dest: simulation_tick_parameters)
      show ?thesis
      proof (cases c)
        case True
        with Cons.prems \<open>is_running self \<and> active_simulations self \<noteq> []\<close> Inr r
        have "simulation_loop self1 rest clock1 (ev @ ev1) = (self', clock', ev')" by simp
        then have "same_parameters self1 self'" by (rule Cons.IH)
        with f1 show ?thesis by (rule same_parameters_trans)
      next
        case False
        with Cons.prems \<open>is_running self \<and> active_simulations self \<noteq> []\<close> Inr r
        have "self' = self1\<lparr>is_running := False\<rparr>" by simp
        then have "same_parameters self1 self'" by (simp add: same_parameters_running)
        with f1 show ?thesis by (rule same_parameters_trans)
      qed
    qed
  qed
qed

lemma stop_simulation_parameters: "same_parameters self (fst (stop_simulation self now))"
  by (simp add: stop_simulation_def same_parameters_def Let_def)

lemma initialize_vehicle_route_parameters:
  "same_parameters self (fst (initialize_vehicle_route self client net now route depot))"
  by (simp add: initialize_vehicle_route_def same_parameters_def Let_def split: prod.splits)

lemma initialize_routes_parameters:
  "same_parameters self (fst (initialize_routes self client net now routes depot))"
proof (induction routes arbitrary: self client)
  case Nil
  show ?case by (simp add: same_parameters_refl)
next
  case (Cons route routes)
  obtain self1 client1 where
    one: "initialize_vehicle_route self client net now route depot = (self1, client1)"
    by (cases "initialize_vehicle_route self client net now route depot") auto
  have "same_parameters self self1"
    using initialize_vehicle_route_parameters [of self client net now route depot] one by simp
  moreover have "same_parameters self1 (fst (initialize_routes self1 client1 net now routes depot))"
    by (rule Cons.IH)
  ultimately show ?case using one by (auto intro: same_parameters_trans)
qed

lemma start_simulation_parameters:
  "same_parameters self (fst (snd (start_simulation self client net now routes depot)))"
proof -
  let ?s0 = "fst (stop_simulation self now)"
  obtain self1 client1 where
    ini: "initialize_routes ?s0 client net now routes depot = (self1, client1)"
    by (cases "initialize_routes ?s0 client net now routes depot") auto
  have "same_parameters ?s0 self1" using initialize_routes_parameters [of ?s0 client net now routes depot] ini by simp
  with stop_simulation_parameters have "same_parameters self self1" by (rule same_parameters_trans)
  then have "same_parameters self (self1\<lparr>is_running := True\<rparr>)"
    using same_parameters_running by (rule same_parameters_trans)
  then show ?thesis using ini by (simp add: start_simulation_def)
qed

lemma reachable_multiplier:
  "reachable self \<Longrightarrow> 1 \<le> simulation_speed_multiplier self \<and> simulation_speed_multiplier self \<le> 1000"
proof (induction rule: reachable.induct)
  case fresh
  show ?case by (simp add: VehicleSimulator_init_def)
next
  case (callback self)
  then show ?case by (simp add: add_websocket_callback_def)
next
  case (speed self multiplier)
  show ?case by (simp add: set_simulation_speed_def)
next
  case (stop self now)
  then show ?case using same_parameters_multiplier [OF stop_simulation_parameters, of self now] by simp
next
  case (start self client net now routes depot)
  then show ?case
    using same_parameters_multiplier [OF start_simulation_parameters, of self client net now routes depot] by simp
next
  case (advance self vid traffic_factor now p self')
  from advance.hyps have "same_parameters self self'"
    by (auto intro: update_vehicle_position_parameters)
  then have "simulation_speed_multiplier self' = simulation_speed_multiplier self"
    by (rule same_parameters_multiplier)
  with advance.IH show ?case by simp
next
  case (loop self traffic clock ev)
  obtain self' clock' ev' where r: "simulation_loop self traffic clock ev = (self', clock', ev')"
    by (cases "simulation_loop self traffic clock ev") auto
  with loop show ?case using same_parameters_multiplier [OF simulation_loop_parameters [OF r]] by simp
qed

text \<open>
  C10. \<open>set_simulation_speed(m)\<close> sets the multiplier to \<open>m\<close> clamped into [1, 1000]; the
  multiplier starts at 100 and no other operation writes it, so in every simulator the
  operations can produce from a fresh one it lies within [1, 1000].
\<close>

theorem C10_multiplier_clamped:
  "simulation_speed_multiplier (set_simulation_speed self m) = max 1 (min 1000 m) \<and>
   simulation_speed_multiplier VehicleSimulator_init = 100 \<and>
   (reachable self' \<longrightarrow>
      1 \<le> simulation_speed_multiplier self' \<and> simulation_speed_multiplier self' \<le> 1000)"
  using reachable_multiplier [of self']
  by (simp add: set_simulation_speed_def VehicleSimulator_init_def)

theorem C10_multiplier_clamped_witness:
  "reachable (set_simulation_speed VehicleSimulator_init 5000) \<and>
   simulation_speed_multiplier (set_simulation_speed VehicleSimulator_init 5000) = 1000 \<and>
   1 \<le> simulation_speed_multiplier (set_simulation_speed VehicleSimulator_init 5000) \<and>
   simulation_speed_multiplier (set_simulation_speed VehicleSimulator_init 5000) \<le> 1000"
proof -
  have r: "reachable (set_simulation_speed VehicleSimulator_init 5000)"
    by (rule reachable.speed) (rule reachable.fresh)
  show ?thesis
    using r C10_multiplier_clamped [of VehicleSimulator_init 5000
        "set_simulation_speed VehicleSimulator_init 5000"]
    by simp
qed

end
